theory Spec2Isabelle
  imports Complex_Main "HOL-Library.Word"
begin

section \<open>Text and character classes\<close>

text \<open>
  A Python \<open>str\<close> is a sequence of code points.  It is modelled as a \<open>string\<close> whose
  characters stand for the code points 0 to 255; \<open>length\<close> counts code points.  The classes
  below are the ones the \<open>re\<close> module and \<open>str.strip\<close> use on that range.
\<close>

definition code :: "char \<Rightarrow> int" where
  "code c = of_char c"

text \<open>\<open>\d\<close> and \<open>[0-9]\<close>: in this range the only decimal digits are the ASCII ones.\<close>

definition is_digit :: "char \<Rightarrow> bool" where
  "is_digit c = (let n = code c in 48 \<le> n \<and> n \<le> 57)"

text \<open>\<open>[a-zA-Z]\<close>\<close>

definition is_letter :: "char \<Rightarrow> bool" where
  "is_letter c = (let n = code c in (65 \<le> n \<and> n \<le> 90) \<or> (97 \<le> n \<and> n \<le> 122))"

text \<open>\<open>[a-zA-Z0-9]\<close>\<close>

definition is_alnum :: "char \<Rightarrow> bool" where
  "is_alnum c = (is_letter c \<or> is_digit c)"

text \<open>\<open>[0-9.]\<close>, \<open>[eE]\<close>, \<open>[+-]\<close>, \<open>[^}]\<close> and \<open>[^]]\<close>\<close>

definition is_digit_or_dot :: "char \<Rightarrow> bool" where
  "is_digit_or_dot c = (is_digit c \<or> c = CHR ''.'')"

definition is_e :: "char \<Rightarrow> bool" where
  "is_e c = (c = CHR ''e'' \<or> c = CHR ''E'')"

definition is_sign :: "char \<Rightarrow> bool" where
  "is_sign c = (c = CHR ''+'' \<or> c = CHR ''-'')"

definition not_rbrace :: "char \<Rightarrow> bool" where
  "not_rbrace c = (if c = CHR ''}'' then False else True)"

definition not_rbracket :: "char \<Rightarrow> bool" where
  "not_rbracket c = (if c = CHR '']'' then False else True)"

text \<open>
  \<open>\s\<close>, and the characters \<open>str.strip()\<close> removes: tab to carriage return, the four
  separators 28 to 31, space, NEL (133) and the no-break space (160).
\<close>

definition is_space :: "char \<Rightarrow> bool" where
  "is_space c = (let n = code c in (9 \<le> n \<and> n \<le> 13) \<or> (28 \<le> n \<and> n \<le> 32) \<or> n = 133 \<or> n = 160)"

text \<open>
  \<open>\w\<close>, which decides \<open>\b\<close>: alphanumeric characters and the underscore.  Above ASCII
  these are the letters, superscript digits and vulgar fractions of the range.
\<close>

definition is_word :: "char \<Rightarrow> bool" where
  "is_word c = (let n = code c in
     (48 \<le> n \<and> n \<le> 57) \<or> (65 \<le> n \<and> n \<le> 90) \<or> n = 95 \<or> (97 \<le> n \<and> n \<le> 122)
     \<or> n = 170 \<or> n = 178 \<or> n = 179 \<or> n = 181 \<or> n = 185
     \<or> n = 186 \<or> n = 188 \<or> n = 189 \<or> n = 190
     \<or> (192 \<le> n \<and> n \<le> 214) \<or> (216 \<le> n \<and> n \<le> 246) \<or> (248 \<le> n \<and> n \<le> 255))"

text \<open>Case folding of \<open>re.IGNORECASE\<close> for a pattern letter: only ASCII letters fold here.\<close>

definition lower :: "char \<Rightarrow> char" where
  "lower c = (let n = code c in if 65 \<le> n \<and> n \<le> 90 then char_of (n + 32) else c)"

definition lit_eq :: "bool \<Rightarrow> char \<Rightarrow> char \<Rightarrow> bool" where
  "lit_eq ic p x = (if ic then lower p = lower x else p = x)"

text \<open>\<open>str.strip()\<close>\<close>

definition strip :: "string \<Rightarrow> string" where
  "strip s = rev (dropWhile is_space (rev (dropWhile is_space s)))"

section \<open>Regular expressions as the program uses them\<close>

text \<open>
  The fragment of \<open>re\<close> that occurs in the sources: literals, one character of a class,
  greedy \<open>+\<close>, \<open>*\<close> and \<open>?\<close> on a class, the word boundary \<open>\b\<close>, capture groups, and
  alternation at top level.  Matching is Python's: leftmost, alternatives in order,
  greedy repetition with backtracking.
\<close>

datatype rx =
    Lit char
  | Cls "char \<Rightarrow> bool"
  | Plus "char \<Rightarrow> bool"
  | Star "char \<Rightarrow> bool"
  | Opt "char \<Rightarrow> bool"
  | Bnd
  | GOpen
  | GClose

text \<open>Closed groups in order, and the text of the group that is open.\<close>

type_synonym groups = "string list \<times> string option"

definition grp_add :: "string \<Rightarrow> groups \<Rightarrow> groups" where
  "grp_add cs g = (case snd g of None \<Rightarrow> g | Some t \<Rightarrow> (fst g, Some (t @ cs)))"

definition grp_open :: "groups \<Rightarrow> groups" where
  "grp_open g = (fst g, Some [])"

definition grp_close :: "groups \<Rightarrow> groups" where
  "grp_close g = (fst g @ [case snd g of None \<Rightarrow> [] | Some t \<Rightarrow> t], None)"

text \<open>The character before the position reached after reading \<open>cs\<close>.\<close>

definition last_of :: "char option \<Rightarrow> string \<Rightarrow> char option" where
  "last_of prev cs = (if cs = [] then prev else Some (last cs))"

definition word_opt :: "char option \<Rightarrow> bool" where
  "word_opt c = (case c of None \<Rightarrow> False | Some x \<Rightarrow> is_word x)"

definition at_boundary :: "char option \<Rightarrow> string \<Rightarrow> bool" where
  "at_boundary prev s =
     (if word_opt prev then (if word_opt (case s of [] \<Rightarrow> None | x # _ \<Rightarrow> Some x) then False else True)
      else word_opt (case s of [] \<Rightarrow> None | x # _ \<Rightarrow> Some x))"

fun first_some :: "('a \<Rightarrow> 'b option) \<Rightarrow> 'a list \<Rightarrow> 'b option" where
  "first_some f [] = None"
| "first_some f (x # xs) = (case f x of Some y \<Rightarrow> Some y | None \<Rightarrow> first_some f xs)"

text \<open>Greedy repetition tries the longest run first, then gives characters back.\<close>

definition counts_from :: "nat \<Rightarrow> nat \<Rightarrow> nat list" where
  "counts_from lo hi = rev [lo..<Suc hi]"

fun rx_match :: "bool \<Rightarrow> rx list \<Rightarrow> char option \<Rightarrow> string \<Rightarrow> groups \<Rightarrow> (string \<times> string list) option" where
  "rx_match ic [] prev s g = Some (s, fst g)"
| "rx_match ic (Lit c # r) prev s g =
     (case s of [] \<Rightarrow> None
      | x # xs \<Rightarrow> if lit_eq ic c x then rx_match ic r (Some x) xs (grp_add [x] g) else None)"
| "rx_match ic (Cls p # r) prev s g =
     (case s of [] \<Rightarrow> None
      | x # xs \<Rightarrow> if p x then rx_match ic r (Some x) xs (grp_add [x] g) else None)"
| "rx_match ic (Plus p # r) prev s g =
     first_some (\<lambda>k. rx_match ic r (last_of prev (take k s)) (drop k s) (grp_add (take k s) g))
       (counts_from 1 (length (takeWhile p s)))"
| "rx_match ic (Star p # r) prev s g =
     first_some (\<lambda>k. rx_match ic r (last_of prev (take k s)) (drop k s) (grp_add (take k s) g))
       (counts_from 0 (length (takeWhile p s)))"
| "rx_match ic (Opt p # r) prev s g =
     first_some (\<lambda>k. rx_match ic r (last_of prev (take k s)) (drop k s) (grp_add (take k s) g))
       (counts_from 0 (min 1 (length (takeWhile p s))))"
| "rx_match ic (Bnd # r) prev s g = (if at_boundary prev s then rx_match ic r prev s g else None)"
| "rx_match ic (GOpen # r) prev s g = rx_match ic r prev s (grp_open g)"
| "rx_match ic (GClose # r) prev s g = rx_match ic r prev s (grp_close g)"

text \<open>A pattern is a list of alternatives, tried in order at one position.\<close>

definition alt_match :: "bool \<Rightarrow> rx list list \<Rightarrow> char option \<Rightarrow> string \<Rightarrow> (string \<times> string list) option" where
  "alt_match ic alts prev s = first_some (\<lambda>p. rx_match ic p prev s ([], None)) alts"

text \<open>Replacement templates: literal text and group references \<open>\1\<close>, \<open>\2\<close>.\<close>

datatype part = Txt string | Grp nat

fun expand :: "part list \<Rightarrow> string list \<Rightarrow> string" where
  "expand [] gs = []"
| "expand (Txt t # ps) gs = t @ expand ps gs"
| "expand (Grp i # ps) gs = (if 0 < i \<and> i \<le> length gs then gs ! (i - 1) else []) @ expand ps gs"

text \<open>
  \<open>re.sub\<close>: scan from the left; where the pattern matches, write the replacement and go
  on behind the match; elsewhere copy one character.  No pattern of the program matches
  the empty text; if one did, the replacement would be written and one character copied.
\<close>

fun re_sub_at :: "bool \<Rightarrow> rx list list \<Rightarrow> part list \<Rightarrow> char option \<Rightarrow> string \<Rightarrow> string" where
  "re_sub_at ic alts tm prev s =
     (case alt_match ic alts prev s of
        None \<Rightarrow> (case s of [] \<Rightarrow> [] | c # cs \<Rightarrow> c # re_sub_at ic alts tm (Some c) cs)
      | Some (rest, gs) \<Rightarrow>
          if length rest < length s
          then expand tm gs @ re_sub_at ic alts tm (last_of prev (take (length s - length rest) s)) rest
          else expand tm gs @ (case s of [] \<Rightarrow> [] | c # cs \<Rightarrow> c # re_sub_at ic alts tm (Some c) cs))"

declare re_sub_at.simps [simp del]

definition re_sub :: "bool \<Rightarrow> rx list list \<Rightarrow> part list \<Rightarrow> string \<Rightarrow> string" where
  "re_sub ic alts tm s = re_sub_at ic alts tm None s"

text \<open>\<open>str.replace(old, new)\<close>: every non-overlapping occurrence, from the left.\<close>

fun strip_prefix :: "string \<Rightarrow> string \<Rightarrow> string option" where
  "strip_prefix [] s = Some s"
| "strip_prefix (p # ps) [] = None"
| "strip_prefix (p # ps) (x # xs) = (if p = x then strip_prefix ps xs else None)"

fun replace_at :: "string \<Rightarrow> string \<Rightarrow> string \<Rightarrow> string" where
  "replace_at old new s =
     (case s of [] \<Rightarrow> []
      | c # cs \<Rightarrow>
          (case strip_prefix old s of
             None \<Rightarrow> c # replace_at old new cs
           | Some rest \<Rightarrow>
               if length rest < length s then new @ replace_at old new rest
               else c # replace_at old new cs))"

declare replace_at.simps [simp del]

definition str_replace :: "string \<Rightarrow> string \<Rightarrow> string \<Rightarrow> string" where
  "str_replace old new s =
     (if old = [] then new @ concat (map (\<lambda>c. c # new) s) else replace_at old new s)"

section \<open>Notation normalizer\<close>

definition lits :: "string \<Rightarrow> rx list" where
  "lits s = map Lit s"

definition bslash :: char where
  "bslash = CHR 0x5C"

text \<open>
  \<open>MathNotationProcessor.SYMBOL_MAP\<close>, in the order of the dictionary, which is the order
  of the replacement loop.  The rows whose key has a code point above 255 (Greek letters,
  arrows, set and calculus symbols, ...) cannot occur in a text of this model; replacing
  them is the identity here, so they are left out.  The keys above ASCII that remain are
  the multiplication sign (0xD7), the division sign (0xF7), superscript two and three
  (0xB2, 0xB3), the not sign (0xAC), the degree sign (0xB0) and plus-minus (0xB1).
\<close>

definition SYMBOL_MAP :: "(string \<times> string) list" where
  "SYMBOL_MAP =
    [(''+'', '' plus ''),
     (''-'', '' minus ''),
     ([CHR 0xD7], '' times ''),
     (''*'', '' times ''),
     ([CHR 0xF7], '' divided by ''),
     (''/'', '' divided by ''),
     (''='', '' equals ''),
     (''<'', '' less than ''),
     (''>'', '' greater than ''),
     (''<<'', '' much less than ''),
     (''>>'', '' much greater than ''),
     ([CHR 0xB2], '' squared''),
     ([CHR 0xB3], '' cubed''),
     ([CHR 0xAC], '' not ''),
     (''lim'', '' limit ''),
     ([CHR 0xB0], '' degrees ''),
     ([CHR 0xB1], '' plus or minus ''),
     (''%'', '' percent '')]"

text \<open>The regular expressions of \<open>process_mathematical_text\<close>, in source order.\<close>

definition rx_fraction :: "rx list" where
  "rx_fraction = [GOpen, Plus is_digit, GClose, Lit CHR ''/'', GOpen, Plus is_digit, GClose]"

definition rx_power :: "rx list" where
  "rx_power = [GOpen, Plus is_alnum, GClose, Lit CHR ''^'', GOpen, Plus is_alnum, GClose]"

definition rx_subscript :: "rx list" where
  "rx_subscript = [GOpen, Plus is_alnum, GClose, Lit CHR ''_'', GOpen, Plus is_alnum, GClose]"

definition rx_scientific :: "rx list" where
  "rx_scientific =
     [GOpen, Plus is_digit_or_dot, GClose, Cls is_e, GOpen, Opt is_sign, Plus is_digit, GClose]"

definition rx_minus_digits :: "rx list" where
  "rx_minus_digits =
     [Bnd, GOpen, Plus is_digit, GClose, Star is_space, Lit CHR ''-'', Star is_space,
      GOpen, Plus is_digit, GClose, Bnd]"

definition rx_minus_letter :: "rx list" where
  "rx_minus_letter =
     [Bnd, GOpen, Cls is_letter, GClose, Star is_space, Lit CHR ''-'', Star is_space,
      GOpen, Cls is_alnum, GClose, Bnd]"

definition rx_minus_spaced :: "rx list" where
  "rx_minus_spaced = [Cls is_space, Lit CHR ''-'', Cls is_space]"

definition rx_spaces :: "rx list" where
  "rx_spaces = [Plus is_space]"

text \<open>Step 4: the six bracket replacements.\<close>

definition spell_brackets :: "string \<Rightarrow> string" where
  "spell_brackets t =
     str_replace ''}'' '' close brace ''
      (str_replace ''{'' '' open brace ''
       (str_replace '']'' '' close bracket ''
        (str_replace ''['' '' open bracket ''
         (str_replace '')'' '' close parenthesis ''
          (str_replace ''('' '' open parenthesis '' t)))))"

text \<open>Step 6: the three hyphen rules.\<close>

definition minus_rules :: "string \<Rightarrow> string" where
  "minus_rules t =
     re_sub False [rx_minus_spaced] [Txt '' minus '']
      (re_sub False [rx_minus_letter] [Grp 1, Txt '' minus '', Grp 2]
       (re_sub False [rx_minus_digits] [Grp 1, Txt '' minus '', Grp 2] t))"

text \<open>Step 7: the loop over the symbol table without its hyphen row.\<close>

definition symbol_map_no_hyphen :: "(string \<times> string) list" where
  "symbol_map_no_hyphen = filter (\<lambda>kv. if fst kv = ''-'' then False else True) SYMBOL_MAP"

definition replace_symbols :: "string \<Rightarrow> string" where
  "replace_symbols t = foldl (\<lambda>acc kv. str_replace (fst kv) (snd kv) acc) t symbol_map_no_hyphen"

definition collapse_spaces :: "string \<Rightarrow> string" where
  "collapse_spaces t = re_sub False [rx_spaces] [Txt '' ''] (strip t)"

definition process_mathematical_text :: "string \<Rightarrow> string" where
  "process_mathematical_text t =
     collapse_spaces
      (replace_symbols
       (minus_rules
        (re_sub False [rx_scientific] [Grp 1, Txt '' times 10 to the power of '', Grp 2]
         (spell_brackets
          (re_sub False [rx_subscript] [Grp 1, Txt '' subscript '', Grp 2]
           (re_sub False [rx_power] [Grp 1, Txt '' to the power of '', Grp 2]
            (re_sub False [rx_fraction] [Grp 1, Txt '' over '', Grp 2] t)))))))"

text \<open>The regular expressions of \<open>process_latex_expressions\<close>, in source order.\<close>

definition braced :: "rx list" where
  "braced = [Lit CHR ''{'', GOpen, Plus not_rbrace, GClose, Lit CHR ''}'']"

definition rx_frac :: "rx list" where
  "rx_frac = Lit bslash # lits ''frac'' @ braced @ braced"

definition rx_sqrt :: "rx list" where
  "rx_sqrt = Lit bslash # lits ''sqrt'' @ braced"

definition rx_root :: "rx list" where
  "rx_root = Lit bslash # lits ''sqrt'' @
     [Lit CHR ''['', GOpen, Plus not_rbracket, GClose, Lit CHR '']''] @ braced"

definition rx_power_braced :: "rx list" where
  "rx_power_braced = [GOpen, Plus is_alnum, GClose, Lit CHR ''^''] @ braced"

definition rx_subscript_braced :: "rx list" where
  "rx_subscript_braced = [GOpen, Plus is_alnum, GClose, Lit CHR ''_''] @ braced"

definition rx_sum :: "rx list" where
  "rx_sum = Lit bslash # lits ''sum_'' @ braced @ [Lit CHR ''^''] @ braced"

definition rx_int :: "rx list" where
  "rx_int = Lit bslash # lits ''int_'' @ braced @ [Lit CHR ''^''] @ braced"

definition rx_lim :: "rx list" where
  "rx_lim = Lit bslash # lits ''lim_{'' @
     [GOpen, Plus not_rbrace, GClose, Lit bslash, Lit CHR ''t'', Lit CHR ''o'', Star is_space,
      GOpen, Plus not_rbrace, GClose, Lit CHR ''}'']"

definition rx_command :: "rx list" where
  "rx_command = [Lit bslash, Plus is_letter]"

definition process_latex_expressions :: "string \<Rightarrow> string" where
  "process_latex_expressions t =
     collapse_spaces
      (re_sub False [rx_command] []
       (re_sub False [rx_lim] [Txt ''limit as '', Grp 1, Txt '' approaches '', Grp 2]
        (re_sub False [rx_int] [Txt ''integral from '', Grp 1, Txt '' to '', Grp 2]
         (re_sub False [rx_sum] [Txt ''sum from '', Grp 1, Txt '' to '', Grp 2]
          (re_sub False [rx_subscript_braced] [Grp 1, Txt '' subscript '', Grp 2]
           (re_sub False [rx_power_braced] [Grp 1, Txt '' to the power of '', Grp 2]
            (re_sub False [rx_root] [Grp 1, Txt ''th root of '', Grp 2]
             (re_sub False [rx_sqrt] [Txt ''square root of '', Grp 1]
              (re_sub False [rx_frac] [Grp 1, Txt '' over '', Grp 2] t)))))))))"

text \<open>\<open>TTSEngine._clean_text\<close>\<close>

definition clean_text :: "string \<Rightarrow> string" where
  "clean_text t = collapse_spaces (process_latex_expressions (process_mathematical_text t))"

section \<open>Segmentation policy\<close>

text \<open>
  The abbreviation list of \<open>has_true_sentence_ending\<close>, in source order.  Each row is
  \<open>\b\<close>, the letters and the escaped periods of the pattern.
\<close>

definition abbreviation_texts :: "string list" where
  "abbreviation_texts =
    [''Mr.'', ''Mrs.'', ''Ms.'', ''Dr.'', ''Prof.'', ''Rev.'', ''St.'', ''Mt.'',
     ''Jr.'', ''Sr.'', ''II.'', ''III.'',
     ''PhD.'', ''MD.'', ''LLD.'', ''BA.'', ''BS.'', ''MA.'', ''MS.'',
     ''etc.'', ''vs.'', ''e.g.'', ''i.e.'', ''Inc.'', ''Corp.'', ''Ltd.'', ''Co.'', ''LLC.'',
     ''U.S.'', ''U.K.'', ''N.Y.'', ''L.A.'', ''D.C.'',
     ''a.m.'', ''p.m.'', ''A.M.'', ''P.M.'',
     ''in.'', ''ft.'', ''lb.'', ''oz.'', ''gal.'', ''min.'', ''sec.'', ''max.'']"

definition abbreviations :: "rx list list" where
  "abbreviations = map (\<lambda>a. Bnd # lits a) abbreviation_texts"

text \<open>\<open>re.sub(abbrev_pattern, 'ABBREV', text, flags=re.IGNORECASE)\<close>\<close>

definition mask_abbreviations :: "string \<Rightarrow> string" where
  "mask_abbreviations t = re_sub True abbreviations [Txt ''ABBREV''] t"

definition sentence_endings :: "string" where
  "sentence_endings = ''.!?''"

text \<open>The loop over the endings returns at the first one found in the masked text.\<close>

fun any_ending_in :: "string \<Rightarrow> string \<Rightarrow> bool" where
  "any_ending_in [] t = False"
| "any_ending_in (e # es) t = (if e \<in> set t then True else any_ending_in es t)"

definition has_true_sentence_ending :: "string \<Rightarrow> bool" where
  "has_true_sentence_ending t = any_ending_in sentence_endings (mask_abbreviations t)"

text \<open>
  The decision of \<open>should_process_text\<close> on the buffer it has read.  No statement of its
  \<open>try\<close> block raises, so the \<open>except\<close> branch that returns false is not a case here.
\<close>

definition should_process_buffer :: "string \<Rightarrow> bool" where
  "should_process_buffer text_buffer =
     (let has_sentence_end = has_true_sentence_ending text_buffer;
          buffer_too_long = (100 < length (strip text_buffer))
      in has_sentence_end \<or> buffer_too_long)"

section \<open>Alignment synthesizer\<close>

text \<open>\<open>re.findall(r'\S+', text)\<close>: the maximal runs of characters that are not whitespace.\<close>

fun findall_from :: "string \<Rightarrow> string \<Rightarrow> string list" where
  "findall_from cur [] = (if cur = [] then [] else [cur])"
| "findall_from cur (c # cs) =
     (if is_space c then (if cur = [] then findall_from [] cs else cur # findall_from [] cs)
      else findall_from (cur @ [c]) cs)"

definition findall_words :: "string \<Rightarrow> string list" where
  "findall_words t = findall_from [] t"

text \<open>
  Times are Python floats; they are modelled as real numbers, so the rounding of floating
  point arithmetic is not part of the model.  A phoneme timing is the tuple
  \<open>(label, start_ms, end_ms)\<close>.
\<close>

type_synonym phoneme_timing = "string \<times> real \<times> real"

definition timing_end :: "phoneme_timing \<Rightarrow> real" where
  "timing_end p = snd (snd p)"

record char_record =
  start_ms :: real
  duration_ms :: real

record word_record = char_record +
  word :: string

text \<open>The body of the loop over the words, with \<open>current_time\<close> as the running sum.\<close>

fun word_loop :: "real \<Rightarrow> nat \<Rightarrow> real \<Rightarrow> string list \<Rightarrow> word_record list" where
  "word_loop total_duration total_chars current_time [] = []"
| "word_loop total_duration total_chars current_time (w # ws) =
     (let word_duration =
            (if 0 < total_chars then (real (length w) / real total_chars) * total_duration else 0)
      in \<lparr>start_ms = current_time, duration_ms = word_duration, word = w\<rparr>
           # word_loop total_duration total_chars (current_time + word_duration) ws)"

text \<open>\<open>phoneme_timings[-1][2] if phoneme_timings else 0\<close>\<close>

definition total_duration :: "phoneme_timing list \<Rightarrow> real" where
  "total_duration phoneme_timings =
     (if phoneme_timings = [] then 0 else timing_end (last phoneme_timings))"

definition generate_word_alignment :: "string \<Rightarrow> phoneme_timing list \<Rightarrow> word_record list" where
  "generate_word_alignment t phoneme_timings =
     (let words = findall_words t
      in if phoneme_timings = [] then []
         else if words = [] then []
         else word_loop (total_duration phoneme_timings) (sum_list (map length words)) 0 words)"

text \<open>The loop over \<open>enumerate(text)\<close> with a fixed duration per character.\<close>

definition even_records :: "real \<Rightarrow> nat \<Rightarrow> char_record list" where
  "even_records char_duration n =
     map (\<lambda>i. \<lparr>start_ms = real i * char_duration, duration_ms = char_duration\<rparr>) [0..<n]"

definition generate_character_alignment :: "string \<Rightarrow> phoneme_timing list \<Rightarrow> char_record list" where
  "generate_character_alignment t phoneme_timings =
     (if phoneme_timings = [] then even_records 100 (length t)
      else
        (let char_duration =
               (if 0 < length t then total_duration phoneme_timings / real (length t) else 0)
         in even_records char_duration (length t)))"

section \<open>Audio encoder\<close>

text \<open>
  Python's \<open>int()\<close> on a float, and the conversion of a float to an integer type,
  truncate towards zero.
\<close>

definition trunc :: "real \<Rightarrow> int" where
  "trunc x = (if 0 \<le> x then \<lfloor>x\<rfloor> else \<lceil>x\<rceil>)"

text \<open>
  Samples are floating point numbers.  Their values are real numbers; what the platform
  adds is the rounding of every arithmetic result and the behaviour of a conversion that
  overflows.  Both are parameters: \<open>round32\<close> rounds a result to the single precision of
  the sample array, \<open>round64\<close> rounds a result to double precision, and \<open>cast_outside\<close>
  is what the conversion to a 16-bit integer yields for a value outside the 32-bit range
  (where it is not defined by the language).
\<close>

record numerics =
  round32 :: "real \<Rightarrow> real"
  round64 :: "real \<Rightarrow> real"
  cast_outside :: "real \<Rightarrow> 16 word"

text \<open>
  \<open>astype(np.int16)\<close> on one value: truncate towards zero and, when the result fits 32
  bits, keep the low 16 bits, read as two's complement.
\<close>

definition astype_int16 :: "(real \<Rightarrow> 16 word) \<Rightarrow> real \<Rightarrow> 16 word" where
  "astype_int16 outside y =
     (if - 2147483648 \<le> trunc y \<and> trunc y \<le> 2147483647 then word_of_int (trunc y)
      else outside y)"

text \<open>\<open>(audio_data * 32767).astype(np.int16)\<close> on one sample; there is no clipping.\<close>

definition pcm16 :: "numerics \<Rightarrow> real \<Rightarrow> 16 word" where
  "pcm16 nm x = astype_int16 (cast_outside nm) (round32 nm (x * 32767))"

text \<open>\<open>tobytes()\<close>: two bytes per sample, low byte first.\<close>

definition tobytes :: "16 word list \<Rightarrow> 8 word list" where
  "tobytes ws = concat (map (\<lambda>w. [ucast w, ucast (drop_bit 8 w)]) ws)"

definition kokoro_sample_rate :: nat where
  "kokoro_sample_rate = 24000"

definition target_sample_rate :: nat where
  "target_sample_rate = 44100"

text \<open>\<open>int(len(audio_data) * resampling_ratio)\<close>, computed in double precision.\<close>

definition target_length :: "numerics \<Rightarrow> nat \<Rightarrow> nat" where
  "target_length nm n =
     nat (trunc (round64 nm
       (real n * round64 nm (real target_sample_rate / real kokoro_sample_rate))))"

text \<open>
  The resampler (\<open>scipy.signal.resample\<close>) and the base64 encoder are library calls and
  parameters of the model.  The resampler raises for an empty sample array and for a
  target length of 0, and may raise otherwise; an exception leaves \<open>_audio_to_base64\<close>
  and is the left summand here.
\<close>

definition audio_to_base64 ::
  "numerics \<Rightarrow> (real list \<Rightarrow> nat \<Rightarrow> string + real list) \<Rightarrow> (8 word list \<Rightarrow> string)
     \<Rightarrow> real list \<Rightarrow> string + string" where
  "audio_to_base64 nm resample b64encode audio_data =
     (case (if kokoro_sample_rate = target_sample_rate then Inr audio_data
            else if audio_data = [] then Inl ''ValueError''
            else if target_length nm (length audio_data) = 0 then Inl ''ValueError''
            else resample audio_data (target_length nm (length audio_data))) of
        Inl err \<Rightarrow> Inl err
      | Inr resampled \<Rightarrow> Inr (b64encode (tobytes (map (pcm16 nm) resampled))))"

section \<open>Session registry\<close>

record session =
  text_buffer :: string
  full_text :: string
  is_active :: bool
  created_at :: real

record 'ws connection_manager =
  active_connections :: "string \<rightharpoonup> 'ws"
  session_data :: "string \<rightharpoonup> session"

definition connect :: "'ws \<Rightarrow> string \<Rightarrow> real \<Rightarrow> 'ws connection_manager \<Rightarrow> 'ws connection_manager" where
  "connect websocket session_id now cm =
     cm\<lparr>active_connections := (active_connections cm)(session_id \<mapsto> websocket),
        session_data := (session_data cm)(session_id \<mapsto>
           \<lparr>text_buffer = [], full_text = [], is_active = True, created_at = now\<rparr>)\<rparr>"

definition disconnect :: "string \<Rightarrow> 'ws connection_manager \<Rightarrow> 'ws connection_manager" where
  "disconnect session_id cm =
     cm\<lparr>active_connections := (active_connections cm)(session_id := None),
        session_data := (session_data cm)(session_id := None)\<rparr>"

definition initialize_session :: "string \<Rightarrow> 'ws connection_manager \<Rightarrow> 'ws connection_manager" where
  "initialize_session session_id cm =
     (case session_data cm session_id of
        None \<Rightarrow> cm
      | Some s \<Rightarrow> cm\<lparr>session_data := (session_data cm)(session_id \<mapsto>
                        s\<lparr>text_buffer := [], full_text := [], is_active := True\<rparr>)\<rparr>)"

definition add_text_chunk :: "string \<Rightarrow> string \<Rightarrow> 'ws connection_manager \<Rightarrow> 'ws connection_manager" where
  "add_text_chunk session_id t cm =
     (case session_data cm session_id of
        None \<Rightarrow> cm
      | Some s \<Rightarrow> cm\<lparr>session_data := (session_data cm)(session_id \<mapsto>
                        s\<lparr>text_buffer := text_buffer s @ t, full_text := full_text s @ t\<rparr>)\<rparr>)"

definition get_text_buffer :: "'ws connection_manager \<Rightarrow> string \<Rightarrow> string" where
  "get_text_buffer cm session_id =
     (case session_data cm session_id of None \<Rightarrow> [] | Some s \<Rightarrow> text_buffer s)"

definition clear_text_buffer :: "string \<Rightarrow> 'ws connection_manager \<Rightarrow> 'ws connection_manager" where
  "clear_text_buffer session_id cm =
     (case session_data cm session_id of
        None \<Rightarrow> cm
      | Some s \<Rightarrow> cm\<lparr>session_data := (session_data cm)(session_id \<mapsto> s\<lparr>text_buffer := []\<rparr>)\<rparr>)"

definition should_process_text :: "'ws connection_manager \<Rightarrow> string \<Rightarrow> bool" where
  "should_process_text cm session_id = should_process_buffer (get_text_buffer cm session_id)"

section \<open>Speech engine\<close>

text \<open>
  The engine with its collaborators: \<open>synthesize\<close> stands for
  \<open>_generate_audio_with_phoneme_timings\<close> (the speech pipeline and its fallback), which
  yields samples and phoneme timings or raises.
\<close>

record engine =
  ready :: bool
  synthesize :: "string \<Rightarrow> string + (real list \<times> phoneme_timing list)"
  resample :: "real list \<Rightarrow> nat \<Rightarrow> string + real list"
  b64encode :: "8 word list \<Rightarrow> string"
  arith :: numerics

record char_alignment =
  chars :: string
  char_start_times_ms :: "int list"
  char_durations_ms :: "int list"

record word_alignment =
  words :: "string list"
  word_start_times_ms :: "int list"
  word_durations_ms :: "int list"

text \<open>
  The result dictionary.  \<open>result_full_text\<close> is its key \<open>full_text\<close> and
  \<open>current_chunk_text\<close> is absent until the protocol handler sets it.
\<close>

record tts_result =
  audio :: string
  original_text :: string
  processed_text :: string
  alignment :: char_alignment
  word_alignment :: word_alignment
  result_full_text :: string
  current_chunk_text :: "string option"

text \<open>
  \<open>generate_audio_with_alignment\<close>: every exception raised in its body, by the engine
  not being ready, by the synthesis call or by the encoder, is caught there and turned
  into \<open>None\<close>.
\<close>

definition generate_audio_with_alignment :: "engine \<Rightarrow> string \<Rightarrow> tts_result option" where
  "generate_audio_with_alignment eng t =
     (if ready eng then
        (let processed = clean_text t
         in if strip processed = [] then None
            else
              (case synthesize eng processed of
                 Inl err \<Rightarrow> None
               | Inr (audio_data, phoneme_timings) \<Rightarrow>
                   (let word_alignments = generate_word_alignment processed phoneme_timings;
                        char_alignments = generate_character_alignment processed phoneme_timings
                    in case audio_to_base64 (arith eng) (resample eng) (b64encode eng) audio_data of
                         Inl err \<Rightarrow> None
                       | Inr audio_base64 \<Rightarrow>
                           Some \<lparr>audio = audio_base64,
                                 original_text = t,
                                 processed_text = processed,
                                 alignment =
                                   \<lparr>chars = processed,
                                    char_start_times_ms = map (\<lambda>a. trunc (start_ms a)) char_alignments,
                                    char_durations_ms = map (\<lambda>a. trunc (duration_ms a)) char_alignments\<rparr>,
                                 word_alignment =
                                   \<lparr>words = map word word_alignments,
                                    word_start_times_ms = map (\<lambda>w. trunc (start_ms w)) word_alignments,
                                    word_durations_ms = map (\<lambda>w. trunc (duration_ms w)) word_alignments\<rparr>,
                                 result_full_text = processed,
                                 current_chunk_text = None\<rparr>)))
      else None)"

section \<open>Protocol handler\<close>

datatype outbound = Result tts_result | Error string

text \<open>
  \<open>process_text_buffer\<close>, on the registry and the list of messages sent so far.  The
  \<open>except\<close> branch answers an exception that leaves the \<open>try\<close> block; the engine call
  catches its own, and sending is taken to succeed, so nothing reaches it here.
\<close>

definition process_text_buffer ::
  "engine \<Rightarrow> string \<Rightarrow> 'ws connection_manager \<times> outbound list \<Rightarrow> 'ws connection_manager \<times> outbound list" where
  "process_text_buffer eng session_id st =
     (let cm = fst st; sent = snd st; buf = get_text_buffer cm session_id
      in if strip buf = [] then st
         else
           (case generate_audio_with_alignment eng buf of
              None \<Rightarrow> st
            | Some result \<Rightarrow>
                (let full_accumulated_text =
                       (case session_data cm session_id of None \<Rightarrow> buf | Some s \<Rightarrow> full_text s);
                     message = result\<lparr>result_full_text := full_accumulated_text,
                                      current_chunk_text := Some (processed_text result)\<rparr>
                 in (clear_text_buffer session_id cm, sent @ [Result message]))))"

definition process_remaining_text ::
  "engine \<Rightarrow> string \<Rightarrow> 'ws connection_manager \<times> outbound list \<Rightarrow> 'ws connection_manager \<times> outbound list" where
  "process_remaining_text eng session_id st =
     (if strip (get_text_buffer (fst st) session_id) = [] then st
      else process_text_buffer eng session_id st)"

text \<open>
  An inbound frame after \<open>json.loads\<close>: text that is not JSON, an object with the key
  \<open>text\<close>, an object without it whose \<open>flush\<close> is true, one whose \<open>reset\<close> is true, and
  any other object.
\<close>

datatype inbound = Malformed | Text string | Flush | Reset | Unknown

text \<open>One turn of the loop; the flag says whether the loop goes on.\<close>

fun handle_message ::
  "engine \<Rightarrow> string \<Rightarrow> inbound \<Rightarrow> 'ws connection_manager \<times> outbound list
     \<Rightarrow> bool \<times> 'ws connection_manager \<times> outbound list" where
  "handle_message eng session_id (Text t) st =
     (if t = '' '' then (True, initialize_session session_id (fst st), snd st)
      else if t = [] then (False, process_remaining_text eng session_id st)
      else
        (let st1 = (add_text_chunk session_id t (fst st), snd st)
         in if should_process_text (fst st1) session_id
            then (True, process_text_buffer eng session_id st1)
            else (True, st1)))"
| "handle_message eng session_id Flush st = (True, process_text_buffer eng session_id st)"
| "handle_message eng session_id Reset st = (True, initialize_session session_id (fst st), snd st)"
| "handle_message eng session_id Unknown st = (True, st)"
| "handle_message eng session_id Malformed st =
     (True, fst st, snd st @ [Error ''Invalid JSON format''])"

text \<open>The loop; the end of the list is the client going away.\<close>

fun message_loop ::
  "engine \<Rightarrow> string \<Rightarrow> inbound list \<Rightarrow> 'ws connection_manager \<times> outbound list
     \<Rightarrow> 'ws connection_manager \<times> outbound list" where
  "message_loop eng session_id [] st = st"
| "message_loop eng session_id (m # ms) st =
     (case handle_message eng session_id m st of
        (True, st1) \<Rightarrow> message_loop eng session_id ms st1
      | (False, st1) \<Rightarrow> st1)"

definition websocket_endpoint ::
  "engine \<Rightarrow> 'ws \<Rightarrow> string \<Rightarrow> real \<Rightarrow> inbound list \<Rightarrow> 'ws connection_manager
     \<Rightarrow> 'ws connection_manager \<times> outbound list" where
  "websocket_endpoint eng websocket session_id now msgs cm =
     (let st = message_loop eng session_id msgs (connect websocket session_id now cm, [])
      in (disconnect session_id (fst st), snd st))"

section \<open>Reference definitions for the properties\<close>

text \<open>Python's \<open>sub in s\<close> on strings.\<close>

fun occurs_in :: "string \<Rightarrow> string \<Rightarrow> bool" where
  "occurs_in sub [] = (case strip_prefix sub [] of None \<Rightarrow> False | Some r \<Rightarrow> True)"
| "occurs_in sub (c # cs) =
     (case strip_prefix sub (c # cs) of Some r \<Rightarrow> True | None \<Rightarrow> occurs_in sub cs)"

text \<open>
  The segmentation policy in the words of the specification.  An abbreviation occurs at a
  position when the position is at a word boundary and the abbreviation with its period,
  compared without regard to case, is a prefix of the text there; the first abbreviation of
  the list that occurs is masked by the placeholder, and the scan goes on behind it.
\<close>

fun ci_prefix :: "string \<Rightarrow> string \<Rightarrow> string option" where
  "ci_prefix [] s = Some s"
| "ci_prefix (a # as) [] = None"
| "ci_prefix (a # as) (x # xs) = (if lower a = lower x then ci_prefix as xs else None)"

definition abbreviation_at :: "char option \<Rightarrow> string \<Rightarrow> string option" where
  "abbreviation_at prev s =
     (if at_boundary prev s then first_some (\<lambda>a. ci_prefix a s) abbreviation_texts else None)"

fun spec_mask :: "char option \<Rightarrow> string \<Rightarrow> string" where
  "spec_mask prev [] = []"
| "spec_mask prev (c # cs) =
     (case abbreviation_at prev (c # cs) of
        None \<Rightarrow> c # spec_mask (Some c) cs
      | Some rest \<Rightarrow>
          if length rest < length (c # cs)
          then ''ABBREV'' @ spec_mask (last_of prev (take (length (c # cs) - length rest) (c # cs))) rest
          else ''ABBREV'' @ c # spec_mask (Some c) cs)"

definition shouldProcess :: "string \<Rightarrow> bool" where
  "shouldProcess buffer =
     (list_ex (\<lambda>c. c = CHR ''.'' \<or> c = CHR ''!'' \<or> c = CHR ''?'') (spec_mask None buffer)
      \<or> 100 < length (strip buffer))"

text \<open>
  A phoneme timing of the data model: its start is not negative and its end is not before
  its start.
\<close>

definition phoneme_timing_ok :: "phoneme_timing \<Rightarrow> bool" where
  "phoneme_timing_ok p = (0 \<le> fst (snd p) \<and> fst (snd p) \<le> snd (snd p))"

text \<open>Clipping to the unit amplitude range, as the specification describes it.\<close>

definition clamp_unit :: "real \<Rightarrow> real" where
  "clamp_unit x = max (- 1) (min 1 x)"

text \<open>
  Concrete engines and registries on which the properties are evaluated.
  \<open>exact_numerics\<close> is arithmetic without rounding error; it agrees with every rounding
  wherever the exact result is representable.
\<close>

definition exact_numerics :: numerics where
  "exact_numerics = \<lparr>round32 = (\<lambda>y. y), round64 = (\<lambda>y. y), cast_outside = (\<lambda>y. 0)\<rparr>"

definition stub_engine :: engine where
  "stub_engine =
     \<lparr>ready = True,
      synthesize = (\<lambda>t. Inr ([0, 1 / 2], [(''a'', 0, 80)])),
      resample = (\<lambda>samples n. Inr samples),
      b64encode = (\<lambda>bytes. []),
      arith = exact_numerics\<rparr>"

definition failing_engine :: engine where
  "failing_engine = stub_engine\<lparr>synthesize := (\<lambda>t. Inl ''backend unavailable'')\<rparr>"

definition empty_registry :: "unit connection_manager" where
  "empty_registry = \<lparr>active_connections = Map.empty, session_data = Map.empty\<rparr>"

definition registry_with :: "string \<Rightarrow> string \<Rightarrow> unit connection_manager" where
  "registry_with sid buf =
     \<lparr>active_connections = [sid \<mapsto> ()],
      session_data = [sid \<mapsto> \<lparr>text_buffer = buf, full_text = buf, is_active = True, created_at = 0\<rparr>]\<rparr>"

section \<open>Segmentation policy: the decision and the specification agree\<close>

lemma grp_add_closed: "snd g = None \<Longrightarrow> grp_add cs g = g"
  by (simp add: grp_add_def)

lemma rx_match_lits:
  "snd g = None \<Longrightarrow> rx_match True (lits a) prev s g = map_option (\<lambda>r. (r, fst g)) (ci_prefix a s)"
proof (induction a arbitrary: s prev)
  case Nil
  then show ?case by (simp add: lits_def)
next
  case (Cons x a)
  show ?case
  proof (cases s)
    case Nil
    then show ?thesis by (simp add: lits_def)
  next
    case (Cons y ys)
    with Cons.IH [OF Cons.prems] Cons.prems show ?thesis
      by (simp add: lits_def lit_eq_def grp_add_closed)
  qed
qed

lemma first_some_map: "first_some f (map h xs) = first_some (\<lambda>x. f (h x)) xs"
  by (induction xs) (simp_all split: option.splits)

lemma first_some_map_option:
  "first_some (\<lambda>x. map_option h (f x)) xs = map_option h (first_some f xs)"
  by (induction xs) (simp_all split: option.splits)

lemma first_some_None: "first_some (\<lambda>x. None) xs = None"
  by (induction xs) simp_all

lemma alt_match_abbreviations:
  "alt_match True abbreviations prev s = map_option (\<lambda>r. (r, [])) (abbreviation_at prev s)"
  by (simp add: alt_match_def abbreviations_def abbreviation_at_def first_some_map
      rx_match_lits first_some_map_option first_some_None)

lemma abbreviation_at_Nil: "abbreviation_at prev [] = None"
  by (simp add: abbreviation_at_def abbreviation_texts_def)

lemma re_sub_at_Nil_abbrev: "re_sub_at True abbreviations tm prev [] = []"
  by (subst re_sub_at.simps) (simp add: alt_match_abbreviations abbreviation_at_Nil)

lemma mask_is_spec_mask: "re_sub_at True abbreviations [Txt ''ABBREV''] prev s = spec_mask prev s"
proof (induction prev s rule: spec_mask.induct)
  case (1 prev)
  show ?case by (simp add: re_sub_at_Nil_abbrev)
next
  case (2 prev c cs)
  show ?case
  proof (cases "abbreviation_at prev (c # cs)")
    case None
    with 2 show ?thesis
      by (subst re_sub_at.simps) (simp add: alt_match_abbreviations)
  next
    case (Some rest)
    with 2 show ?thesis
      by (subst re_sub_at.simps) (simp add: alt_match_abbreviations)
  qed
qed

lemma any_ending_in_iff:
  "any_ending_in sentence_endings t = list_ex (\<lambda>c. c = CHR ''.'' \<or> c = CHR ''!'' \<or> c = CHR ''?'') t"
  by (auto simp: sentence_endings_def list_ex_iff)

lemma dr_smith_arrived: "should_process_buffer ''Dr. Smith arrived'' = False"
  by code_simp

lemma hello_dr_smith: "should_process_buffer ''Hello Dr. Smith.'' = True"
  by code_simp

lemma should_process_buffer_spec: "should_process_buffer buffer = shouldProcess buffer"
  by (simp add: should_process_buffer_def shouldProcess_def has_true_sentence_ending_def
      mask_abbreviations_def re_sub_def mask_is_spec_mask any_ending_in_iff)

text \<open>
  Claim C3.  For every buffer, the decision of \<open>should_process_text\<close> is true exactly when
  a period, exclamation mark or question mark remains after every occurrence of an
  abbreviation pattern (matched without regard to case, with its period) has been masked
  by the placeholder, or the trimmed buffer is longer than 100 characters.  It is false on
  \<open>Dr. Smith arrived\<close> and true on \<open>Hello Dr. Smith.\<close>.
\<close>

theorem should_process_refines:
  "should_process_text cm session_id = shouldProcess (get_text_buffer cm session_id)
   \<and> should_process_buffer buffer = shouldProcess buffer
   \<and> should_process_buffer ''Dr. Smith arrived'' = False
   \<and> should_process_buffer ''Hello Dr. Smith.'' = True"
  by (simp add: should_process_text_def should_process_buffer_spec [symmetric]
      dr_smith_arrived hello_dr_smith)

section \<open>Alignment synthesizer\<close>

lemma total_duration_nonneg:
  "list_all phoneme_timing_ok ps \<Longrightarrow> 0 \<le> total_duration ps"
proof (cases "ps = []")
  case True
  then show ?thesis by (simp add: total_duration_def)
next
  case False
  assume "list_all phoneme_timing_ok ps"
  with False have "phoneme_timing_ok (last ps)" by (simp add: list_all_iff)
  with False show ?thesis by (simp add: total_duration_def timing_end_def phoneme_timing_ok_def)
qed

subsection \<open>Truncation\<close>

lemma trunc_mono: "x \<le> y \<Longrightarrow> trunc x \<le> trunc y"
proof -
  assume le: "x \<le> y"
  show ?thesis
  proof (cases "0 \<le> x")
    case True
    with le show ?thesis by (simp add: trunc_def floor_mono)
  next
    case False
    note neg = this
    show ?thesis
    proof (cases "0 \<le> y")
      case True
      from neg have "\<lceil>x\<rceil> \<le> 0" by (simp add: ceiling_le_iff)
      moreover from True have "0 \<le> \<lfloor>y\<rfloor>" by simp
      ultimately have "\<lceil>x\<rceil> \<le> \<lfloor>y\<rfloor>" by linarith
      with neg True show ?thesis by (simp add: trunc_def)
    next
      case False
      with neg le show ?thesis by (simp add: trunc_def ceiling_mono)
    qed
  qed
qed

lemma trunc_nonneg_bounds: "0 \<le> x \<Longrightarrow> real_of_int (trunc x) \<le> x \<and> x - 1 < real_of_int (trunc x)"
  unfolding trunc_def by simp

lemma trunc_zero: "trunc 0 = 0"
  by (simp add: trunc_def)

lemma sum_trunc_bounds:
  "list_all (\<lambda>x. 0 \<le> x) xs \<Longrightarrow>
     real_of_int (sum_list (map trunc xs)) \<le> sum_list xs
     \<and> sum_list xs - real (length xs) \<le> real_of_int (sum_list (map trunc xs))"
proof (induction xs)
  case Nil
  then show ?case by simp
next
  case (Cons x xs)
  then have "0 \<le> x" and "list_all (\<lambda>x. 0 \<le> x) xs" by simp_all
  from trunc_nonneg_bounds [OF \<open>0 \<le> x\<close>] Cons.IH [OF \<open>list_all (\<lambda>x. 0 \<le> x) xs\<close>]
  show ?case by simp
qed

lemma sorted_map_trunc: "sorted xs \<Longrightarrow> sorted (map trunc xs)"
  by (induction xs) (auto intro: trunc_mono)

subsection \<open>Character records\<close>

lemma length_even_records: "length (even_records d n) = n"
  by (simp add: even_records_def)

lemma durations_even_records: "map duration_ms (even_records d n) = replicate n d"
  by (simp add: even_records_def map_replicate_const comp_def)

lemma starts_even_records: "map start_ms (even_records d n) = map (\<lambda>i. real i * d) [0..<n]"
  by (simp add: even_records_def comp_def)

lemma sum_even_records: "sum_list (map duration_ms (even_records d n)) = real n * d"
  by (simp add: durations_even_records sum_list_replicate)

lemma sorted_even_records: "0 \<le> d \<Longrightarrow> sorted (map start_ms (even_records d n))"
  unfolding starts_even_records
  by (auto simp: sorted_iff_nth_mono intro!: mult_right_mono)

subsection \<open>Word records\<close>

lemma findall_from_nonempty_words: "w \<in> set (findall_from cur t) \<Longrightarrow> w \<noteq> []"
  by (induction t arbitrary: cur) (auto split: if_splits)

lemma findall_from_cur: "cur \<noteq> [] \<Longrightarrow> findall_from cur t \<noteq> []"
  by (induction t arbitrary: cur) auto

lemma findall_from_found:
  "list_ex (\<lambda>c. \<not> is_space c) t \<Longrightarrow> findall_from cur t \<noteq> []"
  by (induction t arbitrary: cur) (auto simp: findall_from_cur)

lemma sum_lengths_pos:
  assumes "ws \<noteq> []" and "\<And>w. w \<in> set ws \<Longrightarrow> w \<noteq> []"
  shows "0 < sum_list (map length ws)"
  using assms by (cases ws) auto

lemma word_loop_words: "map word (word_loop td tc cur ws) = ws"
  by (induction ws arbitrary: cur) (simp_all add: Let_def)

lemma word_loop_sum:
  "0 < tc \<Longrightarrow>
     sum_list (map duration_ms (word_loop td tc cur ws))
       = (real (sum_list (map length ws)) / real tc) * td"
  by (induction ws arbitrary: cur) (simp_all add: Let_def field_simps)

lemma whole_share: "0 < (tc :: nat) \<Longrightarrow> real tc / real tc * td = td"
  by simp

lemma word_loop_durations_nonneg:
  "0 \<le> td \<Longrightarrow> list_all (\<lambda>d. 0 \<le> d) (map duration_ms (word_loop td tc cur ws))"
  by (induction ws arbitrary: cur) (simp_all add: Let_def)

lemma word_loop_starts_ge:
  "0 \<le> td \<Longrightarrow> r \<in> set (word_loop td tc cur ws) \<Longrightarrow> cur \<le> start_ms r"
proof (induction ws arbitrary: cur)
  case Nil
  then show ?case by simp
next
  case (Cons w ws)
  let ?d = "if 0 < tc then (real (length w) / real tc) * td else 0"
  have d: "0 \<le> ?d" using Cons.prems(1) by simp
  from Cons.prems(2) consider "start_ms r = cur" | "r \<in> set (word_loop td tc (cur + ?d) ws)"
    by (auto simp: Let_def)
  then show ?case
  proof cases
    case 1
    then show ?thesis by simp
  next
    case 2
    from Cons.IH [OF Cons.prems(1) 2] d show ?thesis by linarith
  qed
qed

lemma word_loop_sorted:
  "0 \<le> td \<Longrightarrow> sorted (map start_ms (word_loop td tc cur ws))"
proof (induction ws arbitrary: cur)
  case Nil
  then show ?case by simp
next
  case (Cons w ws)
  let ?d = "if 0 < tc then (real (length w) / real tc) * td else 0"
  have d: "0 \<le> ?d" using Cons.prems by simp
  have "cur \<le> start_ms r" if "r \<in> set (word_loop td tc (cur + ?d) ws)" for r
    using word_loop_starts_ge [OF Cons.prems that] d by linarith
  with Cons.IH [OF Cons.prems, of "cur + ?d"] show ?case
    by (auto simp: Let_def)
qed

lemma word_loop_zero:
  "r \<in> set (word_loop 0 tc 0 ws) \<Longrightarrow> start_ms r = 0 \<and> duration_ms r = 0"
proof (induction ws)
  case Nil
  then show ?case by simp
next
  case (Cons w ws)
  have "word_loop 0 tc 0 (w # ws)
          = \<lparr>start_ms = 0, duration_ms = 0, word = w\<rparr> # word_loop 0 tc 0 ws"
    by simp
  with Cons show ?case by auto
qed

subsection \<open>Normalized text has a word\<close>

lemma strip_hd: "strip s \<noteq> [] \<Longrightarrow> \<not> is_space (hd (strip s))"
proof -
  assume ne: "strip s \<noteq> []"
  let ?v = "dropWhile is_space s"
  from ne have "dropWhile is_space (rev ?v) \<noteq> []" by (simp add: strip_def)
  then have "rev ?v \<noteq> []" by (cases "rev ?v") simp_all
  then have v: "?v \<noteq> []" by simp
  then have a: "\<not> is_space (hd ?v)" by (rule hd_dropWhile)
  from v have "rev ?v = rev (tl ?v) @ [hd ?v]" by (cases ?v) simp_all
  then have "dropWhile is_space (rev ?v) = dropWhile is_space (rev (tl ?v)) @ [hd ?v]
             \<or> dropWhile is_space (rev ?v) = [hd ?v]"
    using a by (simp add: dropWhile_append)
  then have "hd (strip s) = hd ?v" by (auto simp: strip_def)
  with a show ?thesis by simp
qed

lemma rx_spaces_no_match: "\<not> is_space c \<Longrightarrow> alt_match ic [rx_spaces] prev (c # cs) = None"
  by (simp add: alt_match_def rx_spaces_def counts_from_def)

lemma rx_spaces_Nil: "alt_match ic [rx_spaces] prev [] = None"
  by (simp add: alt_match_def rx_spaces_def counts_from_def)

lemma collapse_spaces_hd:
  assumes "collapse_spaces t \<noteq> []"
  shows "\<not> is_space (hd (collapse_spaces t))"
proof (cases "strip t")
  case Nil
  then have "collapse_spaces t = []"
    by (simp add: collapse_spaces_def re_sub_def re_sub_at.simps [of _ _ _ _ "[]"] rx_spaces_Nil)
  with assms show ?thesis by simp
next
  case (Cons c cs)
  with strip_hd [of t] have c: "\<not> is_space c" by simp
  have "collapse_spaces t = c # re_sub_at False [rx_spaces] [Txt '' ''] (Some c) cs"
    by (simp add: collapse_spaces_def re_sub_def Cons re_sub_at.simps [of _ _ _ _ "c # cs"]
        rx_spaces_no_match [OF c])
  with c show ?thesis by simp
qed

lemma clean_text_words:
  assumes "clean_text raw \<noteq> []"
  shows "findall_words (clean_text raw) \<noteq> []"
proof -
  from assms have "\<not> is_space (hd (clean_text raw))"
    unfolding clean_text_def by (rule collapse_spaces_hd)
  with assms have "list_ex (\<lambda>c. \<not> is_space c) (clean_text raw)"
    by (cases "clean_text raw") simp_all
  then show ?thesis unfolding findall_words_def by (rule findall_from_found)
qed

text \<open>
  Claim C4.  For every non-empty normalized text and every non-empty sequence of phoneme
  timings, the durations of the character records and those of the word records each add
  up to the total duration (the end of the last timing), the values sent to the client,
  truncated to whole milliseconds, differ from it by at most one millisecond per record,
  and the start times of both alignments never decrease.
\<close>

theorem alignment_sums_and_order:
  assumes "phoneme_timings \<noteq> []"
    and "list_all phoneme_timing_ok phoneme_timings"
    and "clean_text raw \<noteq> []"
  shows "let t = clean_text raw;
             T = total_duration phoneme_timings;
             cs = generate_character_alignment t phoneme_timings;
             ws = generate_word_alignment t phoneme_timings
         in sum_list (map duration_ms cs) = T
          \<and> sum_list (map duration_ms ws) = T
          \<and> sorted (map start_ms cs)
          \<and> sorted (map start_ms ws)
          \<and> \<bar>real_of_int (sum_list (map (\<lambda>a. trunc (duration_ms a)) cs)) - T\<bar> \<le> real (length cs)
          \<and> \<bar>real_of_int (sum_list (map (\<lambda>w. trunc (duration_ms w)) ws)) - T\<bar> \<le> real (length ws)
          \<and> sorted (map (\<lambda>a. trunc (start_ms a)) cs)
          \<and> sorted (map (\<lambda>w. trunc (start_ms w)) ws)"
proof -
  let ?t = "clean_text raw"
  let ?T = "total_duration phoneme_timings"
  let ?n = "length ?t"
  let ?d = "?T / real ?n"
  let ?words = "findall_words ?t"
  let ?tc = "sum_list (map length ?words)"
  let ?cs = "generate_character_alignment ?t phoneme_timings"
  let ?ws = "generate_word_alignment ?t phoneme_timings"
  have T: "0 \<le> ?T" using assms(2) by (rule total_duration_nonneg)
  have n: "0 < ?n" using assms(3) by simp
  have words: "?words \<noteq> []" using assms(3) by (rule clean_text_words)
  have tc: "0 < ?tc"
    using words findall_from_nonempty_words [of _ "[]" ?t]
    by (intro sum_lengths_pos) (simp_all add: findall_words_def)
  have cs: "?cs = even_records ?d ?n"
    using assms(1) n by (simp add: generate_character_alignment_def)
  have ws: "?ws = word_loop ?T ?tc 0 ?words"
    using assms(1) words by (simp add: generate_word_alignment_def Let_def)
  have d: "0 \<le> ?d" using T by simp
  have c_sum: "sum_list (map duration_ms ?cs) = ?T"
    using n by (simp add: cs sum_even_records)
  have w_sum: "sum_list (map duration_ms ?ws) = ?T"
    unfolding ws word_loop_sum [OF tc] using tc by (rule whole_share)
  have c_sorted: "sorted (map start_ms ?cs)"
    unfolding cs using d by (rule sorted_even_records)
  have w_sorted: "sorted (map start_ms ?ws)"
    unfolding ws using T by (rule word_loop_sorted)
  have c_nonneg: "list_all (\<lambda>x. 0 \<le> x) (map duration_ms ?cs)"
    using d by (simp add: cs durations_even_records list_all_iff)
  have w_nonneg: "list_all (\<lambda>x. 0 \<le> x) (map duration_ms ?ws)"
    unfolding ws using T by (rule word_loop_durations_nonneg)
  have c_tol: "\<bar>real_of_int (sum_list (map (\<lambda>a. trunc (duration_ms a)) ?cs)) - ?T\<bar> \<le> real (length ?cs)"
    using sum_trunc_bounds [OF c_nonneg] c_sum by (simp add: comp_def)
  have w_tol: "\<bar>real_of_int (sum_list (map (\<lambda>w. trunc (duration_ms w)) ?ws)) - ?T\<bar> \<le> real (length ?ws)"
    using sum_trunc_bounds [OF w_nonneg] w_sum by (simp add: comp_def)
  have c_int: "sorted (map (\<lambda>a. trunc (start_ms a)) ?cs)"
    using sorted_map_trunc [OF c_sorted] by (simp add: comp_def)
  have w_int: "sorted (map (\<lambda>w. trunc (start_ms w)) ?ws)"
    using sorted_map_trunc [OF w_sorted] by (simp add: comp_def)
  from c_sum w_sum c_sorted w_sorted c_tol w_tol c_int w_int
  show ?thesis by (simp only: Let_def)
qed

lemma clean_text_Hi: "clean_text ''Hi'' = ''Hi''"
  by code_simp

theorem alignment_sums_and_order_witness:
  "[(''h'', 0, 80), (''i'', 80, 160)] \<noteq> ([] :: phoneme_timing list)
   \<and> list_all phoneme_timing_ok [(''h'', 0, 80), (''i'', 80, 160)]
   \<and> clean_text ''Hi'' \<noteq> []
   \<and> sum_list (map duration_ms (generate_character_alignment (clean_text ''Hi'') [(''h'', 0, 80), (''i'', 80, 160)])) = 160
   \<and> sum_list (map duration_ms (generate_word_alignment (clean_text ''Hi'') [(''h'', 0, 80), (''i'', 80, 160)])) = 160"
proof -
  have h1: "[(''h'', 0, 80), (''i'', 80, 160)] \<noteq> ([] :: phoneme_timing list)" by simp
  have h2: "list_all phoneme_timing_ok [(''h'', 0, 80), (''i'', 80, 160)]"
    by (simp add: phoneme_timing_ok_def)
  have h3: "clean_text ''Hi'' \<noteq> []" by (simp add: clean_text_Hi)
  have T: "total_duration [(''h'', 0, 80), (''i'', 80, 160)] = 160"
    by (simp add: total_duration_def timing_end_def)
  from alignment_sums_and_order [OF h1 h2 h3] h1 h2 h3 T
  show ?thesis by (simp add: Let_def)
qed

text \<open>
  Claim C7, as the code has it.  For the empty text both alignments are empty.  For an empty
  timing sequence every character gets 100 ms (character \<open>i\<close> starts at \<open>100 i\<close>) and the
  word alignment is empty.  For a non-empty timing sequence whose total duration is 0,
  every record of both alignments starts at 0 and lasts 0, with one character record per
  character and one word record per whitespace-delimited token.
\<close>

theorem degenerate_alignments:
  "generate_character_alignment [] phoneme_timings = []
   \<and> generate_word_alignment [] phoneme_timings = []
   \<and> generate_character_alignment t [] = even_records 100 (length t)
   \<and> list_all (\<lambda>r. duration_ms r = 100) (generate_character_alignment t [])
   \<and> generate_word_alignment t [] = []
   \<and> (phoneme_timings \<noteq> [] \<and> total_duration phoneme_timings = 0 \<longrightarrow>
        length (generate_character_alignment t phoneme_timings) = length t
        \<and> list_all (\<lambda>r. start_ms r = 0 \<and> duration_ms r = 0) (generate_character_alignment t phoneme_timings)
        \<and> map word (generate_word_alignment t phoneme_timings) = findall_words t
        \<and> list_all (\<lambda>r. start_ms r = 0 \<and> duration_ms r = 0) (generate_word_alignment t phoneme_timings))"
proof -
  have a: "generate_character_alignment [] phoneme_timings = []"
    by (simp add: generate_character_alignment_def even_records_def)
  have b: "generate_word_alignment [] phoneme_timings = []"
    by (simp add: generate_word_alignment_def findall_words_def)
  have c: "generate_character_alignment t [] = even_records 100 (length t)"
    by (simp add: generate_character_alignment_def)
  have d: "list_all (\<lambda>r. duration_ms r = 100) (generate_character_alignment t [])"
    by (simp add: c even_records_def list_all_iff)
  have e: "generate_word_alignment t [] = []"
    by (simp add: generate_word_alignment_def)
  have f: "length (generate_character_alignment t phoneme_timings) = length t
        \<and> list_all (\<lambda>r. start_ms r = 0 \<and> duration_ms r = 0) (generate_character_alignment t phoneme_timings)
        \<and> map word (generate_word_alignment t phoneme_timings) = findall_words t
        \<and> list_all (\<lambda>r. start_ms r = 0 \<and> duration_ms r = 0) (generate_word_alignment t phoneme_timings)"
    if ne: "phoneme_timings \<noteq> []" and z: "total_duration phoneme_timings = 0"
  proof -
    have cs: "generate_character_alignment t phoneme_timings = even_records 0 (length t)"
      using ne z by (simp add: generate_character_alignment_def)
    have ws: "generate_word_alignment t phoneme_timings
                = word_loop 0 (sum_list (map length (findall_words t))) 0 (findall_words t)"
      using ne z by (cases "findall_words t = []") (simp_all add: generate_word_alignment_def Let_def)
    show ?thesis
      using word_loop_zero
      by (simp add: cs ws length_even_records word_loop_words list_all_iff)
         (simp add: even_records_def)
  qed
  from a b c d e f show ?thesis by blast
qed

theorem degenerate_alignments_witness:
  "[(''a'', 0, 0)] \<noteq> ([] :: phoneme_timing list) \<and> total_duration [(''a'', 0, 0)] = 0
   \<and> map word (generate_word_alignment ''a b'' [(''a'', 0, 0)]) = [''a'', ''b'']
   \<and> length (generate_character_alignment ''a b'' [(''a'', 0, 0)]) = 3"
proof -
  have h: "[(''a'', 0, 0)] \<noteq> ([] :: phoneme_timing list) \<and> total_duration [(''a'', 0, 0)] = 0"
    by (simp add: total_duration_def timing_end_def)
  have w: "findall_words ''a b'' = [''a'', ''b'']" by code_simp
  from degenerate_alignments [of "[(''a'', 0, 0)]" "''a b''"] h w
  show ?thesis by simp
qed

text \<open>
  Claim C7 as stated fails for the empty timing sequence: the total duration is 0 and the
  text has two tokens, but the word alignment has no record.
\<close>

theorem word_alignment_empty_timings_counterexample:
  "total_duration [] = 0
   \<and> findall_words ''hello world'' = [''hello'', ''world'']
   \<and> generate_word_alignment ''hello world'' [] = []"
proof -
  have "findall_words ''hello world'' = [''hello'', ''world'']" by code_simp
  then show ?thesis by (simp add: total_duration_def generate_word_alignment_def)
qed

section \<open>Audio encoder\<close>

lemma trunc_between:
  assumes "- 32767 \<le> y" and "y \<le> 32767"
  shows "- 32767 \<le> trunc y" and "trunc y \<le> 32767"
proof -
  show "- 32767 \<le> trunc y"
    using assms by (auto simp: trunc_def le_floor_iff le_ceiling_iff intro: order_trans)
  show "trunc y \<le> 32767"
    using assms by (auto simp: trunc_def floor_le_iff ceiling_le_iff)
qed

lemma rounded_product_between:
  assumes m: "mono (round32 nm)"
    and hi: "round32 nm 32767 = 32767"
    and lo: "round32 nm (- 32767) = - 32767"
    and x: "\<bar>x\<bar> \<le> 1"
  shows "- 32767 \<le> round32 nm (x * 32767)" and "round32 nm (x * 32767) \<le> 32767"
proof -
  from x have a: "- 32767 \<le> x * 32767" and b: "x * 32767 \<le> 32767"
    by (auto simp: abs_le_iff)
  from monoD [OF m a] lo show "- 32767 \<le> round32 nm (x * 32767)" by simp
  from monoD [OF m b] hi show "round32 nm (x * 32767) \<le> 32767" by simp
qed

lemma astype_int16_small:
  assumes "- 32767 \<le> trunc y" and "trunc y \<le> 32767"
  shows "sint (astype_int16 outside y) = trunc y"
proof -
  have "sint (word_of_int (trunc y) :: 16 word) = trunc y"
    using assms by (simp add: sint_sbintrunc' signed_take_bit_int_eq_self)
  with assms show ?thesis by (simp add: astype_int16_def)
qed

text \<open>
  Claim C6, as the code has it.  The encoder scales a sample by 32767 in single precision
  and truncates; it has no clipping step.  Rounding is monotone and leaves 32767 and -32767
  as they are, so for a sample within the unit range the 16-bit value is the truncated
  rounded product, lies between -32767 and 32767, and equals the value of the clipped
  sample.
\<close>

theorem pcm16_unit_range:
  assumes "mono (round32 nm)"
    and "round32 nm 32767 = 32767"
    and "round32 nm (- 32767) = - 32767"
    and "\<bar>x\<bar> \<le> 1"
  shows "sint (pcm16 nm x) = trunc (round32 nm (x * 32767))
       \<and> - 32767 \<le> sint (pcm16 nm x) \<and> sint (pcm16 nm x) \<le> 32767
       \<and> pcm16 nm x = pcm16 nm (clamp_unit x)"
proof -
  let ?y = "round32 nm (x * 32767)"
  from assms(4) have c: "clamp_unit x = x" by (simp add: clamp_unit_def abs_le_iff)
  have t: "- 32767 \<le> trunc ?y" "trunc ?y \<le> 32767"
    using rounded_product_between [OF assms] by (rule trunc_between)+
  have "sint (pcm16 nm x) = trunc ?y"
    unfolding pcm16_def using t by (rule astype_int16_small)
  with t c show ?thesis by simp
qed

theorem pcm16_unit_range_witness:
  "mono (round32 exact_numerics)
   \<and> round32 exact_numerics 32767 = 32767
   \<and> round32 exact_numerics (- 32767) = - 32767
   \<and> \<bar>1 / 2 :: real\<bar> \<le> 1
   \<and> sint (pcm16 exact_numerics (1 / 2)) = 16383"
proof -
  have h1: "mono (round32 exact_numerics)" by (simp add: exact_numerics_def mono_def)
  have h2: "round32 exact_numerics 32767 = 32767" by (simp add: exact_numerics_def)
  have h3: "round32 exact_numerics (- 32767) = - 32767" by (simp add: exact_numerics_def)
  have h4: "\<bar>1 / 2 :: real\<bar> \<le> 1" by simp
  have t: "trunc (round32 exact_numerics ((1 / 2) * 32767)) = 16383"
    by (simp add: exact_numerics_def trunc_def)
  from pcm16_unit_range [OF h1 h2 h3 h4]
  have "sint (pcm16 exact_numerics (1 / 2)) = trunc (round32 exact_numerics ((1 / 2) * 32767))"
    by (rule conjunct1)
  with t h1 h2 h3 h4 show ?thesis by simp
qed

text \<open>
  Claim C6 as stated fails: the sample 2 is not clipped.  Its product 65534 is representable
  and needs no rounding; the 16-bit value is -2, while the clipped sample would give 32767.
\<close>

theorem pcm16_no_clipping_counterexample:
  "sint (pcm16 exact_numerics 2) = - 2 \<and> sint (pcm16 exact_numerics (clamp_unit 2)) = 32767"
  by (simp add: pcm16_def astype_int16_def exact_numerics_def trunc_def clamp_unit_def)

section \<open>Session registry\<close>

text \<open>
  Claim C5, as the code has it.  \<open>connect\<close> stores a fresh record with empty buffer, empty
  transcript and the active flag set, and registers the connection, whether or not the
  identifier is present already; it reports no error.
\<close>

theorem connect_creates:
  "session_data (connect ws sid now cm) sid
     = Some \<lparr>text_buffer = [], full_text = [], is_active = True, created_at = now\<rparr>
   \<and> active_connections (connect ws sid now cm) sid = Some ws"
  by (simp add: connect_def)

text \<open>
  Claim C5 as stated fails: connecting under an identifier that is present replaces its
  record, buffer and transcript included.
\<close>

theorem connect_overwrites_counterexample:
  "session_data (registry_with ''s'' ''abc'') ''s''
     = Some \<lparr>text_buffer = ''abc'', full_text = ''abc'', is_active = True, created_at = 0\<rparr>
   \<and> session_data (connect () ''s'' 5 (registry_with ''s'' ''abc'')) ''s''
     = Some \<lparr>text_buffer = [], full_text = [], is_active = True, created_at = 5\<rparr>"
  by (simp add: connect_def registry_with_def)

section \<open>Notation normalizer\<close>

text \<open>
  Claim C10.  The symbol table maps \<open>lim\<close> to \<open> limit \<close>, the row is part of the
  replacement loop, and the loop replaces substrings wherever they stand: \<open>climb\<close> is
  normalized to \<open>c limit b\<close>.
\<close>

theorem climb_becomes_limit:
  "map_of SYMBOL_MAP ''lim'' = Some '' limit ''
   \<and> map_of symbol_map_no_hyphen ''lim'' = Some '' limit ''
   \<and> replace_symbols ''climb'' = ''c limit b''
   \<and> clean_text ''climb'' = ''c limit b''
   \<and> occurs_in ''limit'' (clean_text ''climb'')"
  by code_simp

text \<open>
  Claim C2, evaluated on the code.  The LaTeX step alone rewrites \<open>\frac{1}{2}\<close> to
  \<open>1 over 2\<close>, but in the pipeline the brackets have been spelled out before it runs, and
  the normalized text does not contain \<open>1 over 2\<close>.
\<close>

theorem frac_braces_spelled_first:
  "process_latex_expressions (bslash # ''frac{1}{2}'') = ''1 over 2''
   \<and> process_mathematical_text (bslash # ''frac{1}{2}'')
       = bslash # ''frac open brace 1 close brace open brace 2 close brace''
   \<and> clean_text (bslash # ''frac{1}{2}'') = ''open brace 1 close brace open brace 2 close brace''
   \<and> occurs_in ''1 over 2'' (clean_text (bslash # ''frac{1}{2}'')) = False"
  by code_simp

text \<open>
  Claim C8, evaluated on the code.  \<open>5 - 3 = 2\<close> becomes \<open>5 minus 3 equals 2\<close>,
  \<open>well-known\<close> keeps its hyphen and \<open>1 - 2 - 3\<close> becomes \<open>1 minus 2 minus 3\<close>; but in
  \<open>1-2-3\<close> the second hyphen, between two digits, stays, because the first match has
  consumed its left operand.
\<close>

theorem chained_minus_left:
  "minus_rules ''1-2-3'' = ''1 minus 2-3''
   \<and> clean_text ''1-2-3'' = ''1 minus 2-3''
   \<and> clean_text ''1 - 2 - 3'' = ''1 minus 2 minus 3''
   \<and> clean_text ''5 - 3 = 2'' = ''5 minus 3 equals 2''
   \<and> clean_text ''well-known'' = ''well-known''"
  by code_simp

section \<open>Protocol handler\<close>

lemma hello_should: "should_process_buffer ''Hello Dr. Smith.'' = True" by code_simp
lemma hello_clean: "clean_text ''Hello Dr. Smith.'' = ''Hello Dr. Smith.''" by code_simp
lemma hello_strip: "strip ''Hello Dr. Smith.'' = ''Hello Dr. Smith.''" by code_simp

lemma get_after_connect: "get_text_buffer (connect ws sid now cm) sid = []"
  by (simp add: get_text_buffer_def connect_def)

text \<open>
  Claim C9.  With a ready engine whose synthesis call and encoder succeed, connecting,
  sending the init marker and then \<open>Hello Dr. Smith.\<close> sends exactly one message, a result
  whose \<open>processed_text\<close> and \<open>full_text\<close> are both \<open>Hello Dr. Smith.\<close>; afterwards the
  buffer is empty and the transcript is kept.
\<close>

theorem hello_end_to_end:
  assumes "ready eng"
    and "synthesize eng ''Hello Dr. Smith.'' = Inr (samples, timings)"
    and "audio_to_base64 (arith eng) (resample eng) (b64encode eng) samples = Inr encoded"
  shows "let st = message_loop eng sid [Text '' '', Text ''Hello Dr. Smith.'']
                    (connect ws sid now cm, [])
         in (\<exists>msg. snd st = [Result msg]
                  \<and> audio msg = encoded
                  \<and> processed_text msg = ''Hello Dr. Smith.''
                  \<and> result_full_text msg = ''Hello Dr. Smith.''
                  \<and> current_chunk_text msg = Some ''Hello Dr. Smith.'')
          \<and> get_text_buffer (fst st) sid = []
          \<and> map_option full_text (session_data (fst st) sid) = Some ''Hello Dr. Smith.''"
proof -
  let ?cm1 = "initialize_session sid (connect ws sid now cm)"
  let ?cm2 = "add_text_chunk sid ''Hello Dr. Smith.'' ?cm1"
  have s2: "session_data ?cm2 sid
      = Some \<lparr>text_buffer = ''Hello Dr. Smith.'', full_text = ''Hello Dr. Smith.'',
              is_active = True, created_at = now\<rparr>"
    by (simp add: add_text_chunk_def initialize_session_def connect_def)
  have buf: "get_text_buffer ?cm2 sid = ''Hello Dr. Smith.''"
    by (simp add: get_text_buffer_def s2)
  obtain r where gen: "generate_audio_with_alignment eng ''Hello Dr. Smith.'' = Some r"
    and r1: "processed_text r = ''Hello Dr. Smith.''"
    and r2: "audio r = encoded"
    using assms by (simp add: generate_audio_with_alignment_def hello_clean hello_strip Let_def)
  have step1: "handle_message eng sid (Text '' '') (connect ws sid now cm, []) = (True, ?cm1, [])"
    by simp
  have step2: "handle_message eng sid (Text ''Hello Dr. Smith.'') (?cm1, [])
      = (True, clear_text_buffer sid ?cm2,
          [Result (r\<lparr>result_full_text := ''Hello Dr. Smith.'',
                     current_chunk_text := Some ''Hello Dr. Smith.''\<rparr>)])"
    by (simp add: should_process_text_def buf hello_should process_text_buffer_def hello_strip
        gen r1 s2 Let_def)
  have loop: "message_loop eng sid [Text '' '', Text ''Hello Dr. Smith.''] (connect ws sid now cm, [])
      = (clear_text_buffer sid ?cm2,
          [Result (r\<lparr>result_full_text := ''Hello Dr. Smith.'',
                     current_chunk_text := Some ''Hello Dr. Smith.''\<rparr>)])"
    by (simp only: message_loop.simps step1 step2 prod.case bool.case)
  have fin: "session_data (clear_text_buffer sid ?cm2) sid
      = Some \<lparr>text_buffer = [], full_text = ''Hello Dr. Smith.'', is_active = True, created_at = now\<rparr>"
    by (simp add: clear_text_buffer_def s2)
  show ?thesis
    unfolding Let_def loop by (simp add: r1 r2 get_text_buffer_def fin)
qed

lemma stub_encodes:
  "audio_to_base64 (arith stub_engine) (resample stub_engine) (b64encode stub_engine) [0, 1 / 2]
     = Inr []"
proof -
  have "target_length exact_numerics (length [0, 1 / 2 :: real]) = 3"
    by (simp add: target_length_def exact_numerics_def target_sample_rate_def
        kokoro_sample_rate_def trunc_def)
  then show ?thesis
    unfolding audio_to_base64_def
    by (simp add: stub_engine_def target_sample_rate_def kokoro_sample_rate_def del: list.size)
qed

theorem hello_end_to_end_witness:
  "ready stub_engine
   \<and> synthesize stub_engine ''Hello Dr. Smith.'' = Inr ([0, 1 / 2], [(''a'', 0, 80)])
   \<and> audio_to_base64 (arith stub_engine) (resample stub_engine) (b64encode stub_engine) [0, 1 / 2]
       = Inr []
   \<and> (let st = message_loop stub_engine ''s'' [Text '' '', Text ''Hello Dr. Smith.'']
                   (connect () ''s'' 0 empty_registry, [])
        in (\<exists>msg. snd st = [Result msg]
                 \<and> audio msg = []
                 \<and> processed_text msg = ''Hello Dr. Smith.''
                 \<and> result_full_text msg = ''Hello Dr. Smith.''
                 \<and> current_chunk_text msg = Some ''Hello Dr. Smith.'')
         \<and> get_text_buffer (fst st) ''s'' = []
         \<and> map_option full_text (session_data (fst st) ''s'') = Some ''Hello Dr. Smith.'')"
proof -
  have h1: "ready stub_engine" by (simp add: stub_engine_def)
  have h2: "synthesize stub_engine ''Hello Dr. Smith.'' = Inr ([0, 1 / 2], [(''a'', 0, 80)])"
    by (simp add: stub_engine_def)
  show ?thesis
    by (intro conjI h1 h2 stub_encodes hello_end_to_end [OF h1 h2 stub_encodes])
qed

lemma alpha_clean: "clean_text (bslash # ''alpha'') = []" by code_simp
lemma alpha_strip: "strip (bslash # ''alpha'') = bslash # ''alpha''" by code_simp
lemma alpha_should: "should_process_buffer (bslash # ''alpha'') = False" by code_simp
lemma hello1_clean: "clean_text ''Hello.'' = ''Hello.''" by code_simp
lemma hello1_strip: "strip ''Hello.'' = ''Hello.''" by code_simp
lemma hello1_should: "should_process_buffer ''Hello.'' = True" by code_simp

lemma silent_when_normalized_empty:
  "message_loop eng ''s'' [Text (bslash # ''alpha''), Flush] (connect () ''s'' 0 empty_registry, [])
     = (add_text_chunk ''s'' (bslash # ''alpha'') (connect () ''s'' 0 empty_registry), [])"
proof -
  let ?cm1 = "add_text_chunk ''s'' (bslash # ''alpha'') (connect () ''s'' 0 empty_registry)"
  have buf: "get_text_buffer ?cm1 ''s'' = bslash # ''alpha''"
    by (simp add: get_text_buffer_def add_text_chunk_def connect_def)
  have gen: "generate_audio_with_alignment eng (bslash # ''alpha'') = None"
    by (simp add: generate_audio_with_alignment_def alpha_clean strip_def)
  have ne: "bslash # ''alpha'' \<noteq> '' ''" by (simp add: bslash_def)
  have step1: "handle_message eng ''s'' (Text (bslash # ''alpha'')) (connect () ''s'' 0 empty_registry, [])
      = (True, ?cm1, [])"
    using ne by (simp add: should_process_text_def buf alpha_should Let_def)
  have step2: "handle_message eng ''s'' Flush (?cm1, []) = (True, ?cm1, [])"
    by (simp add: process_text_buffer_def buf alpha_strip gen Let_def)
  show ?thesis
    by (simp only: message_loop.simps step1 step2 prod.case bool.case)
qed

lemma silent_when_backend_fails:
  "message_loop failing_engine ''s'' [Text ''Hello.''] (connect () ''s'' 0 empty_registry, [])
     = (add_text_chunk ''s'' ''Hello.'' (connect () ''s'' 0 empty_registry), [])"
proof -
  let ?cm1 = "add_text_chunk ''s'' ''Hello.'' (connect () ''s'' 0 empty_registry)"
  have buf: "get_text_buffer ?cm1 ''s'' = ''Hello.''"
    by (simp add: get_text_buffer_def add_text_chunk_def connect_def)
  have gen: "generate_audio_with_alignment failing_engine ''Hello.'' = None"
    by (simp add: generate_audio_with_alignment_def hello1_clean hello1_strip failing_engine_def
        stub_engine_def)
  have step1: "handle_message failing_engine ''s'' (Text ''Hello.'') (connect () ''s'' 0 empty_registry, [])
      = (True, ?cm1, [])"
    by (simp add: should_process_text_def buf hello1_should process_text_buffer_def hello1_strip
        gen Let_def)
  show ?thesis
    by (simp only: message_loop.simps step1 prod.case bool.case)
qed

text \<open>
  Claim C1, evaluated on the code.  When the engine yields no result for a non-empty buffer
  (the normalized text is empty, or the backend raises), \<open>process_text_buffer\<close> sends
  nothing: the list of messages stays empty and the buffer is kept.
\<close>

theorem synthesis_failure_is_silent:
  "snd (message_loop eng ''s'' [Text (bslash # ''alpha''), Flush]
          (connect () ''s'' 0 empty_registry, [])) = []
   \<and> get_text_buffer (fst (message_loop eng ''s'' [Text (bslash # ''alpha''), Flush]
          (connect () ''s'' 0 empty_registry, []))) ''s'' = bslash # ''alpha''
   \<and> snd (message_loop failing_engine ''s'' [Text ''Hello.'']
          (connect () ''s'' 0 empty_registry, [])) = []
   \<and> get_text_buffer (fst (message_loop failing_engine ''s'' [Text ''Hello.'']
          (connect () ''s'' 0 empty_registry, []))) ''s'' = ''Hello.''"
  unfolding silent_when_normalized_empty silent_when_backend_fails
  by (simp add: get_text_buffer_def add_text_chunk_def connect_def)

end
